theory Spec2Isabelle
  imports Main "HOL-Library.AList"
begin

section \<open>Text primitives of the Python runtime\<close>

text \<open>
  Source text (SQL statements, JSON payloads, backend status tags) is modelled as
  \<^typ>\<open>string\<close>, every \<^typ>\<open>char\<close> standing for the code point of the same number
  (0 to 255).  On these code points \<open>str.isspace\<close>, \<open>str.lower\<close> and the
  character classes of \<open>re\<close> are the tables written out below.
\<close>

definition is_space :: "char \<Rightarrow> bool" where
  "is_space c = (let n = (of_char c :: nat) in
     (9 \<le> n \<and> n \<le> 13) \<or> (28 \<le> n \<and> n \<le> 32) \<or> n = 133 \<or> n = 160)"

definition non_space :: "char \<Rightarrow> bool" where
  "non_space c = (\<not> is_space c)"

definition lstrip :: "string \<Rightarrow> string" where
  "lstrip s = dropWhile is_space s"

definition rstrip :: "string \<Rightarrow> string" where
  "rstrip s = rev (dropWhile is_space (rev s))"

definition strip :: "string \<Rightarrow> string" where
  "strip s = rstrip (lstrip s)"

definition lower_char :: "char \<Rightarrow> char" where
  "lower_char c = (let n = (of_char c :: nat) in
     if (65 \<le> n \<and> n \<le> 90) \<or> (192 \<le> n \<and> n \<le> 222 \<and> n \<noteq> 215)
     then char_of (n + 32) else c)"

definition lower :: "string \<Rightarrow> string" where
  "lower s = map lower_char s"

text \<open>\<open>s.startswith(p)\<close> and \<open>s.startswith(tuple)\<close>.\<close>

definition startswith :: "string \<Rightarrow> string \<Rightarrow> bool" where
  "startswith s p = (take (length p) s = p)"

definition startswith_any :: "string \<Rightarrow> string list \<Rightarrow> bool" where
  "startswith_any s ps = list_ex (startswith s) ps"

text \<open>
  \<open>s.split(None, n)\<close>: runs of whitespace separate the fields, leading whitespace is
  skipped, and once \<open>n\<close> fields have been cut the rest of the text, without its leading
  whitespace, is the last field.
\<close>

primrec split_ws_max :: "nat \<Rightarrow> string \<Rightarrow> string list" where
  "split_ws_max 0 s = (let r = dropWhile is_space s in if r = [] then [] else [r])"
| "split_ws_max (Suc n) s = (let r = dropWhile is_space s in
     if r = [] then []
     else takeWhile non_space r # split_ws_max n (dropWhile non_space r))"

section \<open>Python values\<close>

text \<open>
  A \<open>str\<close> value is the list of its code points.  \<open>PFloat neg m e\<close> is a finite float, the
  binary64 number nearest to the decimal \<open>m * 10 ^ e\<close> (\<open>m\<close> not negative) with the sign
  \<open>neg\<close>; it is zero exactly when that decimal rounds to zero.
\<close>

type_synonym ustr = "nat list"

definition cp :: "string \<Rightarrow> ustr" where
  "cp s = map of_char s"

datatype pyval =
    PNone
  | PBool bool
  | PInt int
  | PFloat bool int int
  | PNaN
  | PInf bool
  | PStr ustr
  | PList "pyval list"
  | PDict "(ustr \<times> pyval) list"

type_synonym pydict = "(ustr \<times> pyval) list"

text \<open>
  Rounding to nearest, ties to even: a decimal of at most \<open>2 ^ -1075\<close> is the float zero,
  one of at least \<open>2 ^ 1024 - 2 ^ 970\<close> is infinite.
\<close>

definition float_is_zero :: "int \<Rightarrow> int \<Rightarrow> bool" where
  "float_is_zero m e = (m = 0 \<or> (e < 0 \<and> m * 2 ^ 1075 \<le> 10 ^ nat (- e)))"

definition float_overflows :: "int \<Rightarrow> int \<Rightarrow> bool" where
  "float_overflows m e =
     (if e < 0 then (2 ^ 1024 - 2 ^ 970) * 10 ^ nat (- e) \<le> m
      else 2 ^ 1024 - 2 ^ 970 \<le> m * 10 ^ nat e)"

definition make_float :: "bool \<Rightarrow> int \<Rightarrow> int \<Rightarrow> pyval" where
  "make_float neg m e =
     (if float_is_zero m e then PFloat neg 0 0
      else if float_overflows m e then PInf neg
      else PFloat neg m e)"

fun truthy :: "pyval \<Rightarrow> bool" where
  "truthy PNone = False"
| "truthy (PBool b) = b"
| "truthy (PInt i) = (i \<noteq> 0)"
| "truthy (PFloat _ m e) = (\<not> float_is_zero m e)"
| "truthy PNaN = True"
| "truthy (PInf _) = True"
| "truthy (PStr s) = (s \<noteq> [])"
| "truthy (PList xs) = (xs \<noteq> [])"
| "truthy (PDict d) = (d \<noteq> [])"

definition dict_of_pairs :: "(ustr \<times> pyval) list \<Rightarrow> pydict" where
  "dict_of_pairs ps = foldl (\<lambda>d (k, v). AList.update k v d) [] ps"

section \<open>Exceptions\<close>

text \<open>
  Each exception carries the text of \<open>str(e)\<close>.  All of them are instances of
  \<open>Exception\<close> but \<open>CancelledError\<close>, which \<open>except Exception\<close> does not catch.
\<close>

datatype exn =
    IndexError ustr
  | ValueError ustr
  | AttributeError ustr
  | TypeError ustr
  | KeyError ustr
  | ValidationError ustr
  | RecursionError ustr
  | BackendError ustr
  | CancelledError ustr

fun exn_str :: "exn \<Rightarrow> ustr" where
  "exn_str (IndexError m) = m"
| "exn_str (ValueError m) = m"
| "exn_str (AttributeError m) = m"
| "exn_str (TypeError m) = m"
| "exn_str (KeyError m) = m"
| "exn_str (ValidationError m) = m"
| "exn_str (RecursionError m) = m"
| "exn_str (BackendError m) = m"
| "exn_str (CancelledError m) = m"

fun is_exception :: "exn \<Rightarrow> bool" where
  "is_exception (CancelledError m) = False"
| "is_exception _ = True"

text \<open>
  Decimal digits, and the limit of CPython (3.11 and later) on the number of digits in a
  conversion between \<open>int\<close> and \<open>str\<close>, with the two messages of the \<open>ValueError\<close>.
\<close>

definition digit_char :: "nat \<Rightarrow> char" where
  "digit_char d = char_of (48 + d)"

function int_digits :: "int \<Rightarrow> string" where
  "int_digits i =
     (if i < 10 then [digit_char (nat i)]
      else int_digits (i div 10) @ [digit_char (nat (i mod 10))])"
  by pat_completeness auto
termination
  by (relation "measure nat") auto

declare int_digits.simps [simp del]

definition MAX_STR_DIGITS :: nat where
  "MAX_STR_DIGITS = 4300"

definition too_many_digits_to_int :: "nat \<Rightarrow> exn" where
  "too_many_digits_to_int n =
     ValueError (cp (''Exceeds the limit (4300 digits) for integer string conversion: value has ''
       @ int_digits (int n) @ '' digits; use sys.set_int_max_str_digits() to increase the limit''))"

definition too_many_digits_to_str :: exn where
  "too_many_digits_to_str =
     ValueError (cp (''Exceeds the limit (4300 digits) for integer string conversion; ''
       @ ''use sys.set_int_max_str_digits() to increase the limit''))"

section \<open>Statement classifier\<close>

definition READ_ONLY_PREFIXES :: "string list" where
  "READ_ONLY_PREFIXES = [''select'', ''show'', ''explain'', ''with'']"

text \<open>\<open>xs[0]\<close>, raising on the empty list.\<close>

definition index0 :: "'a list \<Rightarrow> exn + 'a" where
  "index0 xs = (case xs of [] \<Rightarrow> Inl (IndexError (cp ''list index out of range'')) | x # _ \<Rightarrow> Inr x)"

definition is_read_only :: "string \<Rightarrow> exn + bool" where
  "is_read_only sql =
     (case (if strip sql \<noteq> [] then map_sum id lower (index0 (split_ws_max 1 (lstrip sql)))
            else Inr [])
      of Inl e \<Rightarrow> Inl e
       | Inr head \<Rightarrow> Inr (startswith_any head READ_ONLY_PREFIXES \<or> head \<in> set READ_ONLY_PREFIXES))"

text \<open>
  The first whitespace-delimited token of the trimmed statement, as the specification
  words it.
\<close>

definition first_token :: "string \<Rightarrow> string" where
  "first_token sql = takeWhile non_space (strip sql)"

section \<open>json.loads\<close>

definition is_digit :: "char \<Rightarrow> bool" where
  "is_digit c = (let n = (of_char c :: nat) in 48 \<le> n \<and> n \<le> 57)"

definition digit_val :: "char \<Rightarrow> int" where
  "digit_val c = of_char c - 48"

definition digits_val :: "string \<Rightarrow> int" where
  "digits_val ds = foldl (\<lambda>a c. 10 * a + digit_val c) 0 ds"

definition hexval :: "char \<Rightarrow> nat option" where
  "hexval c = (let n = (of_char c :: nat) in
     if 48 \<le> n \<and> n \<le> 57 then Some (n - 48)
     else if 97 \<le> n \<and> n \<le> 102 then Some (n - 87)
     else if 65 \<le> n \<and> n \<le> 70 then Some (n - 55)
     else None)"

fun hex4 :: "string \<Rightarrow> nat option" where
  "hex4 [a, b, c, d] =
     (case (hexval a, hexval b, hexval c, hexval d) of
        (Some w, Some x, Some y, Some z) \<Rightarrow> Some (((w * 16 + x) * 16 + y) * 16 + z)
      | _ \<Rightarrow> None)"
| "hex4 _ = None"

definition unescape :: "char \<Rightarrow> nat option" where
  "unescape e =
     (if e = CHR 0x22 then Some 0x22
      else if e = CHR 0x5C then Some 0x5C
      else if e = CHR ''/'' then Some 0x2F
      else if e = CHR ''b'' then Some 8
      else if e = CHR ''f'' then Some 12
      else if e = CHR ''n'' then Some 10
      else if e = CHR ''r'' then Some 13
      else if e = CHR ''t'' then Some 9
      else None)"

definition then_char :: "nat \<Rightarrow> nat \<Rightarrow> (ustr \<times> nat) option \<Rightarrow> (ustr \<times> nat) option" where
  "then_char u k r = (case r of None \<Rightarrow> None | Some (s, n) \<Rightarrow> Some (u # s, n + k))"

fun scanstring :: "string \<Rightarrow> (ustr \<times> nat) option" where
  "scanstring [] = None"
| "scanstring (c # cs) =
     (if c = CHR 0x22 then Some ([], 1)
      else if c = CHR 0x5C then
        (case cs of
           [] \<Rightarrow> None
         | e # es \<Rightarrow>
             if e = CHR ''u'' then
               (case hex4 (take 4 es) of
                  None \<Rightarrow> None
                | Some u \<Rightarrow>
                    if 0xD800 \<le> u \<and> u \<le> 0xDBFF \<and> take 2 (drop 4 es) = [CHR 0x5C, CHR ''u''] then
                      (case hex4 (take 4 (drop 6 es)) of
                         None \<Rightarrow> None
                       | Some u2 \<Rightarrow>
                           if 0xDC00 \<le> u2 \<and> u2 \<le> 0xDFFF
                           then then_char (0x10000 + (u - 0xD800) * 0x400 + (u2 - 0xDC00)) 12
                                  (scanstring (drop 10 es))
                           else then_char u 6 (scanstring (drop 4 es)))
                    else then_char u 6 (scanstring (drop 4 es)))
             else (case unescape e of
                     None \<Rightarrow> None
                   | Some u \<Rightarrow> then_char u 2 (scanstring es)))
      else if (of_char c :: nat) < 32 then None
      else then_char (of_char c) 1 (scanstring cs))"


text \<open>
  The number at the head of the text, by \<open>NUMBER_RE\<close>:
  \<open>(-?(?:0|[1-9]\d*))(\.\d+)?([eE][-+]?\d+)?\<close>, with the number of characters matched.
\<close>

definition scan_int_part :: "string \<Rightarrow> string option" where
  "scan_int_part s =
     (case s of
        [] \<Rightarrow> None
      | d # r \<Rightarrow> if d = CHR ''0'' then Some [d]
                else if is_digit d then Some (d # takeWhile is_digit r)
                else None)"

definition scan_frac :: "string \<Rightarrow> string" where
  "scan_frac s =
     (case s of
        [] \<Rightarrow> []
      | d # r \<Rightarrow> if d = CHR ''.'' \<and> takeWhile is_digit r \<noteq> [] then takeWhile is_digit r else [])"

definition scan_exp :: "string \<Rightarrow> (bool \<times> string \<times> nat) option" where
  "scan_exp s =
     (case s of
        [] \<Rightarrow> None
      | e # r \<Rightarrow>
          if e = CHR ''e'' \<or> e = CHR ''E'' then
            (let sgn = (case r of [] \<Rightarrow> [] | x # _ \<Rightarrow> if x = CHR ''-'' \<or> x = CHR ''+'' then [x] else []);
                 ds = takeWhile is_digit (drop (length sgn) r)
             in if ds = [] then None
                else Some (sgn = [CHR ''-''], ds, 1 + length sgn + length ds))
          else None)"

datatype token =
    TLBrace | TRBrace | TLBrack | TRBrack | TComma | TColon
  | TVal pyval
  | TTooLong nat
  | TBad

text \<open>
  A number literal: an integer (no fraction and no exponent) of more than 4300 digits is
  the token \<open>TTooLong\<close> with its number of digits, a shorter one an \<open>int\<close>, any other
  literal a float.
\<close>

definition scan_number :: "string \<Rightarrow> (token \<times> nat) option" where
  "scan_number s =
     (let neg = (take 1 s = [CHR ''-'']);
          s1 = (if neg then drop 1 s else s)
      in case scan_int_part s1 of
           None \<Rightarrow> None
         | Some ip \<Rightarrow>
             (let s2 = drop (length ip) s1;
                  fr = scan_frac s2;
                  nf = (if fr = [] then 0 else 1 + length fr);
                  s3 = drop nf s2;
                  n0 = (if neg then 1 else 0) + length ip + nf
              in case scan_exp s3 of
                   None \<Rightarrow>
                     if fr = [] then
                       (if MAX_STR_DIGITS < length ip then Some (TTooLong (length ip), n0)
                        else Some (TVal (PInt ((if neg then - 1 else 1) * digits_val ip)), n0))
                     else Some (TVal (make_float neg (digits_val (ip @ fr)) (- int (length fr))), n0)
                 | Some (eneg, ed, ne) \<Rightarrow>
                     Some (TVal (make_float neg (digits_val (ip @ fr))
                                  ((if eneg then - 1 else 1) * digits_val ed - int (length fr))),
                           n0 + ne)))"

text \<open>
  What \<open>scan_once\<close> finds at the head of the text when it is neither a string nor a
  container: a constant, a number or one of \<open>NaN\<close>, \<open>Infinity\<close>, \<open>-Infinity\<close>.
\<close>

definition scan_atom :: "string \<Rightarrow> (token \<times> nat) option" where
  "scan_atom s =
     (if take 4 s = ''null'' then Some (TVal PNone, 4)
      else if take 4 s = ''true'' then Some (TVal (PBool True), 4)
      else if take 5 s = ''false'' then Some (TVal (PBool False), 5)
      else case scan_number s of
             Some r \<Rightarrow> Some r
           | None \<Rightarrow>
               if take 3 s = ''NaN'' then Some (TVal PNaN, 3)
               else if take 8 s = ''Infinity'' then Some (TVal (PInf False), 8)
               else if take 9 s = ''-Infinity'' then Some (TVal (PInf True), 9)
               else None)"

definition json_ws :: "char \<Rightarrow> bool" where
  "json_ws c = (c = CHR '' '' \<or> c = CHR 0x09 \<or> c = CHR 0x0A \<or> c = CHR 0x0D)"

text \<open>
  The lexemes of the text from left to right, whitespace between them skipped.  Text
  at which no lexeme starts is the token \<open>TBad\<close>, and the list ends there.
\<close>

fun tokenize :: "string \<Rightarrow> token list" where
  "tokenize [] = []"
| "tokenize (c # cs) =
     (if json_ws c then tokenize cs
      else if c = CHR 0x7B then TLBrace # tokenize cs
      else if c = CHR 0x7D then TRBrace # tokenize cs
      else if c = CHR ''['' then TLBrack # tokenize cs
      else if c = CHR '']'' then TRBrack # tokenize cs
      else if c = CHR '','' then TComma # tokenize cs
      else if c = CHR '':'' then TColon # tokenize cs
      else if c = CHR 0x22 then
        (case scanstring cs of
           None \<Rightarrow> [TBad]
         | Some (s, n) \<Rightarrow> TVal (PStr s) # tokenize (drop n cs))
      else
        (case scan_atom (c # cs) of
           None \<Rightarrow> [TBad]
         | Some (t, n) \<Rightarrow> t # tokenize (drop (n - 1) cs)))"

text \<open>
  The decoder reads the lexemes in order and raises at the first one it cannot take.
  \<open>frame\<close> is a container under construction (its members latest first), \<open>mode\<close> is
  what the decoder expects next.  Its exceptions: \<open>JSONDecodeError\<close> for text that is
  not JSON, \<open>ValueError\<close> for an integer beyond the digit limit where a value is
  expected, \<open>RecursionError\<close> for a container opened inside \<open>depth\<close> open ones, \<open>depth\<close>
  being the room that the interpreter's recursion limit leaves.
\<close>

datatype json_exc = JSONDecodeError | Raised exn

datatype frame =
    FArr "pyval list"
  | FObj "(ustr \<times> pyval) list"
  | FKey "(ustr \<times> pyval) list" ustr

datatype mode =
    MValue
  | MValueOrEnd
  | MKeyOrEnd
  | MKey
  | MColon
  | MAfter
  | MDone pyval

text \<open>A finished value goes into the container that is open, or is the result.\<close>

fun put_value :: "pyval \<Rightarrow> frame list \<Rightarrow> json_exc + (mode \<times> frame list)" where
  "put_value v [] = Inr (MDone v, [])"
| "put_value v (FArr xs # st) = Inr (MAfter, FArr (v # xs) # st)"
| "put_value v (FKey ps k # st) = Inr (MAfter, FObj ((k, v) # ps) # st)"
| "put_value v (FObj ps # st) = Inl JSONDecodeError"

definition too_deep :: "string \<Rightarrow> json_exc" where
  "too_deep what =
     Raised (RecursionError (cp (''maximum recursion depth exceeded while decoding a JSON ''
       @ what @ '' from a unicode string'')))"

fun begin_value :: "nat \<Rightarrow> token \<Rightarrow> frame list \<Rightarrow> json_exc + (mode \<times> frame list)" where
  "begin_value depth (TVal v) st = put_value v st"
| "begin_value depth (TTooLong n) st = Inl (Raised (too_many_digits_to_int n))"
| "begin_value depth TLBrack st =
     (if length st < depth then Inr (MValueOrEnd, FArr [] # st) else Inl (too_deep ''array''))"
| "begin_value depth TLBrace st =
     (if length st < depth then Inr (MKeyOrEnd, FObj [] # st) else Inl (too_deep ''object''))"
| "begin_value depth _ st = Inl JSONDecodeError"

fun begin_key :: "token \<Rightarrow> frame list \<Rightarrow> json_exc + (mode \<times> frame list)" where
  "begin_key (TVal (PStr k)) (FObj ps # st) = Inr (MColon, FKey ps k # st)"
| "begin_key _ _ = Inl JSONDecodeError"

fun json_step :: "nat \<Rightarrow> mode \<Rightarrow> frame list \<Rightarrow> token \<Rightarrow> json_exc + (mode \<times> frame list)" where
  "json_step depth MValue st t = begin_value depth t st"
| "json_step depth MValueOrEnd st t =
     (case (t, st) of
        (TRBrack, FArr [] # st') \<Rightarrow> put_value (PList []) st'
      | _ \<Rightarrow> begin_value depth t st)"
| "json_step depth MKeyOrEnd st t =
     (case (t, st) of
        (TRBrace, FObj [] # st') \<Rightarrow> put_value (PDict []) st'
      | _ \<Rightarrow> begin_key t st)"
| "json_step depth MKey st t = begin_key t st"
| "json_step depth MColon st t = (if t = TColon then Inr (MValue, st) else Inl JSONDecodeError)"
| "json_step depth MAfter st t =
     (case (t, st) of
        (TComma, FArr xs # st') \<Rightarrow> Inr (MValue, st)
      | (TComma, FObj ps # st') \<Rightarrow> Inr (MKey, st)
      | (TRBrack, FArr xs # st') \<Rightarrow> put_value (PList (rev xs)) st'
      | (TRBrace, FObj ps # st') \<Rightarrow> put_value (PDict (dict_of_pairs (rev ps))) st'
      | _ \<Rightarrow> Inl JSONDecodeError)"
| "json_step depth (MDone v) st t = Inl JSONDecodeError"

fun json_run :: "nat \<Rightarrow> mode \<Rightarrow> frame list \<Rightarrow> token list \<Rightarrow> json_exc + pyval" where
  "json_run depth m st [] = (case m of MDone v \<Rightarrow> Inr v | _ \<Rightarrow> Inl JSONDecodeError)"
| "json_run depth m st (t # ts) =
     (case json_step depth m st t of
        Inl e \<Rightarrow> Inl e
      | Inr (m', st') \<Rightarrow> json_run depth m' st' ts)"

text \<open>\<open>json.loads(s)\<close> with room for \<open>depth\<close> nested containers.\<close>

definition json_loads :: "nat \<Rightarrow> string \<Rightarrow> json_exc + pyval" where
  "json_loads depth s = json_run depth MValue [] (tokenize s)"

section \<open>JSON recovery\<close>

text \<open>\<open>s.replace(a, b)\<close> for one-character \<open>a\<close> and \<open>b\<close>.\<close>

definition replace_char :: "char \<Rightarrow> char \<Rightarrow> string \<Rightarrow> string" where
  "replace_char a b s = map (\<lambda>c. if c = a then b else c) s"

text \<open>
  The classes \<open>[a-zA-Z_]\<close> and \<open>[\w.-]\<close> of the first repair pattern; \<open>\w\<close> on text is
  every alphanumeric code point and the underscore.
\<close>

definition is_ident_start :: "char \<Rightarrow> bool" where
  "is_ident_start c = (let n = (of_char c :: nat) in
     (65 \<le> n \<and> n \<le> 90) \<or> (97 \<le> n \<and> n \<le> 122) \<or> n = 95)"

definition is_word :: "char \<Rightarrow> bool" where
  "is_word c = (let n = (of_char c :: nat) in
     (48 \<le> n \<and> n \<le> 57) \<or> (65 \<le> n \<and> n \<le> 90) \<or> (97 \<le> n \<and> n \<le> 122) \<or> n = 95 \<or>
     n = 170 \<or> n = 178 \<or> n = 179 \<or> n = 181 \<or> n = 185 \<or> n = 186 \<or>
     (188 \<le> n \<and> n \<le> 190) \<or> (192 \<le> n \<and> n \<le> 214) \<or> (216 \<le> n \<and> n \<le> 246) \<or>
     248 \<le> n)"

definition is_ident_char :: "char \<Rightarrow> bool" where
  "is_ident_char c = (is_word c \<or> c = CHR ''.'' \<or> c = CHR ''-'')"

text \<open>
  A match of \<open>\s*([a-zA-Z_][\w.-]*)\s*([,}])\<close> at the head of the text (what follows a
  colon): the bare word, the delimiter and the number of characters matched.  Each
  starred class is followed by a character outside it, so the greedy match is the only
  one.
\<close>

definition match_bare :: "string \<Rightarrow> (string \<times> char \<times> nat) option" where
  "match_bare s =
     (let n1 = length (takeWhile is_space s);
          r1 = drop n1 s
      in case r1 of
           [] \<Rightarrow> None
         | x # r1' \<Rightarrow>
             if is_ident_start x then
               (let ident = x # takeWhile is_ident_char r1';
                    r2 = drop (length ident) r1;
                    n2 = length (takeWhile is_space r2)
                in case drop n2 r2 of
                     [] \<Rightarrow> None
                   | y # _ \<Rightarrow>
                       if y = CHR '','' \<or> y = CHR 0x7D
                       then Some (ident, y, n1 + length ident + n2 + 1)
                       else None)
             else None)"

text \<open>\<open>re.sub(r':\s*([a-zA-Z_][\w.-]*)\s*([,}])', r': "\1"\2', s)\<close>\<close>

fun quote_bare_words :: "string \<Rightarrow> string" where
  "quote_bare_words [] = []"
| "quote_bare_words (c # cs) =
     (if c = CHR '':'' then
        (case match_bare cs of
           Some (ident, y, n) \<Rightarrow>
             '': '' @ [CHR 0x22] @ ident @ [CHR 0x22, y] @ quote_bare_words (drop n cs)
         | None \<Rightarrow> c # quote_bare_words cs)
      else c # quote_bare_words cs)"

text \<open>\<open>re.sub(r',\s*}', '}', s)\<close> and \<open>re.sub(r',\s*]', ']', s)\<close>, for the closer \<open>d\<close>.\<close>

fun drop_trailing_comma :: "char \<Rightarrow> string \<Rightarrow> string" where
  "drop_trailing_comma d [] = []"
| "drop_trailing_comma d (c # cs) =
     (let n = length (takeWhile is_space cs) in
      if c = CHR '','' \<and> take 1 (drop n cs) = [d]
      then d # drop_trailing_comma d (drop (Suc n) cs)
      else c # drop_trailing_comma d cs)"

definition repair :: "string \<Rightarrow> string" where
  "repair json_str =
     drop_trailing_comma (CHR '']'')
       (drop_trailing_comma (CHR 0x7D)
         (quote_bare_words (replace_char (CHR 0x27) (CHR 0x22) json_str)))"

text \<open>\<open>s.strip(chars)\<close>, \<open>s.split(sep)\<close> and \<open>s.split(sep, 1)\<close> for a one-character \<open>sep\<close>.\<close>

definition strip_chars :: "char list \<Rightarrow> string \<Rightarrow> string" where
  "strip_chars cs s = rev (dropWhile (\<lambda>c. c \<in> set cs) (rev (dropWhile (\<lambda>c. c \<in> set cs) s)))"

fun split_on :: "char \<Rightarrow> string \<Rightarrow> string list" where
  "split_on sep [] = [[]]"
| "split_on sep (c # cs) =
     (if c = sep then [] # split_on sep cs
      else (case split_on sep cs of
              [] \<Rightarrow> [[c]]
            | p # ps \<Rightarrow> (c # p) # ps))"

definition split_once :: "char \<Rightarrow> string \<Rightarrow> string \<times> string" where
  "split_once sep s = (takeWhile (\<lambda>c. c \<noteq> sep) s, drop 1 (dropWhile (\<lambda>c. c \<noteq> sep) s))"

text \<open>The manual fallback of \<open>parse_malformed_json\<close>: the loop over the pairs.\<close>

definition manual_pair :: "(ustr \<times> pyval) list \<Rightarrow> string \<Rightarrow> (ustr \<times> pyval) list" where
  "manual_pair result pair =
     (if CHR '':'' \<in> set pair then
        (let (key, val) = split_once (CHR '':'') pair in
         AList.update (cp (strip_chars [CHR 0x22, CHR 0x27] (strip key)))
                      (PStr (cp (strip_chars [CHR 0x22, CHR 0x27] (strip val)))) result)
      else result)"

definition manual_parse :: "string \<Rightarrow> pyval" where
  "manual_parse json_str =
     (let content = strip_chars [CHR 0x7B, CHR 0x7D] (strip json_str) in
      if content \<noteq> [] then PDict (foldl manual_pair [] (split_on (CHR '','') content))
      else PDict [])"

text \<open>
  The argument of \<open>parse_malformed_json\<close>: a \<open>str\<close>, or anything else (\<open>None\<close> and every
  object that is not a \<open>str\<close>).
\<close>

datatype pyarg = ArgStr string | ArgOther pyval

text \<open>
  The first \<open>json.loads\<close> stands under \<open>except json.JSONDecodeError\<close>: any other
  exception it raises leaves the function.  The second stands under
  \<open>except Exception\<close>, which leads every failure to the manual fallback.
\<close>

fun parse_malformed_json :: "nat \<Rightarrow> pyarg \<Rightarrow> exn + pyval" where
  "parse_malformed_json depth (ArgOther v) = Inr (PDict [])"
| "parse_malformed_json depth (ArgStr json_str) =
     (if json_str = [] then Inr (PDict [])
      else case json_loads depth json_str of
             Inr v \<Rightarrow> Inr v
           | Inl (Raised e) \<Rightarrow> Inl e
           | Inl JSONDecodeError \<Rightarrow>
               (case json_loads depth (repair json_str) of
                  Inr v \<Rightarrow> Inr v
                | Inl _ \<Rightarrow> Inr (manual_parse json_str)))"

section \<open>Rendering and reading numbers, \<open>repr\<close>\<close>

text \<open>
  \<open>str(i)\<close>: the decimal numeral of \<open>i\<close>, and a \<open>ValueError\<close> for an \<open>int\<close> of more than
  4300 digits.
\<close>

definition decimal :: "int \<Rightarrow> string" where
  "decimal i = (if i < 0 then CHR ''-'' # int_digits (- i) else int_digits i)"

definition str_int :: "int \<Rightarrow> exn + string" where
  "str_int i = (if 10 ^ MAX_STR_DIGITS \<le> \<bar>i\<bar> then Inl too_many_digits_to_str else Inr (decimal i))"

text \<open>
  The argument \<open>limit\<close>, an \<open>Optional[int]\<close>: \<open>None\<close>, an \<open>int\<close>, or a \<open>bool\<close> (a subclass
  of \<open>int\<close>); and the text that the f-string of line 159 puts for \<open>{limit}\<close>.
\<close>

datatype limit_arg = LimitNone | LimitInt int | LimitBool bool

definition format_limit :: "limit_arg \<Rightarrow> exn + string" where
  "format_limit limit =
     (case limit of
        LimitNone \<Rightarrow> Inr ''None''
      | LimitInt i \<Rightarrow> str_int i
      | LimitBool b \<Rightarrow> Inr (if b then ''True'' else ''False''))"

text \<open>
  \<open>int(s)\<close> in base 10.  Surrounding whitespace and one sign are skipped; the run of
  digits and underscores that follows must be digits with single underscores between
  them; a run of more than 4300 digits exceeds the limit; nothing may follow the run.
\<close>

fun int_body :: "string \<Rightarrow> bool" where
  "int_body [] = False"
| "int_body [d] = is_digit d"
| "int_body (d # u # r) =
     (is_digit d \<and> (if u = CHR ''_'' then int_body r else int_body (u # r)))"

definition hex_digit :: "nat \<Rightarrow> char" where
  "hex_digit d = (if d < 10 then char_of (48 + d) else char_of (87 + d))"

definition is_printable :: "char \<Rightarrow> bool" where
  "is_printable c = (let n = (of_char c :: nat) in
     (32 \<le> n \<and> n \<le> 126) \<or> (161 \<le> n \<and> n \<noteq> 173))"

definition repr_char :: "char \<Rightarrow> char \<Rightarrow> string" where
  "repr_char q c =
     (if c = q \<or> c = CHR 0x5C then [CHR 0x5C, c]
      else if c = CHR 0x09 then [CHR 0x5C, CHR ''t'']
      else if c = CHR 0x0A then [CHR 0x5C, CHR ''n'']
      else if c = CHR 0x0D then [CHR 0x5C, CHR ''r'']
      else if is_printable c then [c]
      else [CHR 0x5C, CHR ''x'', hex_digit (of_char c div 16), hex_digit (of_char c mod 16)])"

definition py_repr :: "string \<Rightarrow> string" where
  "py_repr s =
     (let q = (if CHR 0x27 \<in> set s \<and> CHR 0x22 \<notin> set s then CHR 0x22 else CHR 0x27)
      in [q] @ concat (map (repr_char q) s) @ [q])"

definition unsigned :: "string \<Rightarrow> string" where
  "unsigned t = (if take 1 t = ''-'' \<or> take 1 t = ''+'' then drop 1 t else t)"

definition invalid_literal :: "string \<Rightarrow> exn" where
  "invalid_literal s =
     ValueError (cp (''invalid literal for int() with base 10: '' @ take 200 (py_repr s)))"

definition py_int :: "string \<Rightarrow> exn + int" where
  "py_int s =
     (let t = strip s;
          neg = (take 1 t = ''-'');
          body = unsigned t;
          run = takeWhile (\<lambda>c. is_digit c \<or> c = CHR ''_'') body;
          digits = filter is_digit run
      in if \<not> int_body run then Inl (invalid_literal s)
         else if MAX_STR_DIGITS < length digits then Inl (too_many_digits_to_int (length digits))
         else if drop (length run) body \<noteq> [] then Inl (invalid_literal s)
         else Inr ((if neg then - 1 else 1) * digits_val digits))"

text \<open>\<open>s.split()\<close> and \<open>xs[-1]\<close>.\<close>

fun split_ws :: "string \<Rightarrow> string list" where
  "split_ws [] = []"
| "split_ws (c # cs) =
     (if is_space c then split_ws cs
      else (c # takeWhile non_space cs) # split_ws (drop (length (takeWhile non_space cs)) cs))"

definition index_last :: "'a list \<Rightarrow> exn + 'a" where
  "index_last xs = (case xs of [] \<Rightarrow> Inl (IndexError (cp ''list index out of range'')) | _ \<Rightarrow> Inr (last xs))"

text \<open>\<open>needle in haystack\<close> on text.\<close>

fun contains :: "string \<Rightarrow> string \<Rightarrow> bool" where
  "contains p [] = (p = [])"
| "contains p (c # cs) = (startswith (c # cs) p \<or> contains p cs)"

definition redact :: "string \<Rightarrow> string" where
  "redact sql = strip (replace_char (CHR 0x0A) (CHR '' '') sql)"

section \<open>Models and collaborators\<close>

record TableIdent =
  schema :: ustr
  table :: ustr

definition ALLOWED_SCHEMAS :: "ustr set" where
  "ALLOWED_SCHEMAS = {cp ''public''}"

fun type_name :: "pyval \<Rightarrow> string" where
  "type_name PNone = ''NoneType''"
| "type_name (PBool _) = ''bool''"
| "type_name (PInt _) = ''int''"
| "type_name (PFloat _ _ _) = ''float''"
| "type_name PNaN = ''float''"
| "type_name (PInf _) = ''float''"
| "type_name (PStr _) = ''str''"
| "type_name (PList _) = ''list''"
| "type_name (PDict _) = ''dict''"

text \<open>
  What the validation of a \<open>TableIdent\<close> can find wrong with a field: it is required
  and absent, or its value is not a string.
\<close>

datatype vfail = Missing ustr | StringType ustr pyval

definition str_field :: "pydict \<Rightarrow> string \<Rightarrow> ustr option \<Rightarrow> vfail + ustr" where
  "str_field d name dflt =
     (case map_of d (cp name) of
        None \<Rightarrow> (case dflt of None \<Rightarrow> Inl (Missing (cp name)) | Some v \<Rightarrow> Inr v)
      | Some (PStr s) \<Rightarrow> Inr s
      | Some v \<Rightarrow> Inl (StringType (cp name) v))"

text \<open>
  \<open>TableIdent(**payload_dict)\<close>.  Unpacking something that is not a mapping is a
  \<open>TypeError\<close>; the fields are \<open>schema: str = "public"\<close> and \<open>table: str\<close>, other keys
  are ignored.  The text of a \<open>ValidationError\<close> is the validation library's, a
  parameter here.
\<close>

definition TableIdent_init :: "(vfail list \<Rightarrow> ustr) \<Rightarrow> pyval \<Rightarrow> exn + TableIdent" where
  "TableIdent_init render payload_dict =
     (case payload_dict of
        PDict d \<Rightarrow>
          (case (str_field d ''schema'' (Some (cp ''public'')), str_field d ''table'' None) of
             (Inr s, Inr t) \<Rightarrow> Inr \<lparr>schema = s, table = t\<rparr>
           | (Inl f, Inr t) \<Rightarrow> Inl (ValidationError (render [f]))
           | (Inr s, Inl g) \<Rightarrow> Inl (ValidationError (render [g]))
           | (Inl f, Inl g) \<Rightarrow> Inl (ValidationError (render [f, g])))
      | v \<Rightarrow> Inl (TypeError (cp (''__main__.TableIdent() argument after ** must be a mapping, not ''
                                   @ type_name v))))"

type_synonym row = "(ustr \<times> pyval) list"

text \<open>
  What surrounds the tools, as far as they use it: whether creating the pool, acquiring
  a connection or releasing it raises; what \<open>fetch\<close> and \<open>execute\<close> answer to a statement
  and its positional arguments; the text the validation library gives a
  \<open>ValidationError\<close>; and how many nested containers \<open>json.loads\<close> can open before the
  interpreter's recursion limit is reached.
\<close>

record collab =
  create_pool_error :: "exn option"
  acquire_error :: "exn option"
  release_error :: "exn option"
  fetch :: "string \<Rightarrow> pyval list \<Rightarrow> exn + row list"
  execute :: "string \<Rightarrow> pyval list \<Rightarrow> exn + string"
  validation_text :: "vfail list \<Rightarrow> ustr"
  recursion_room :: nat

datatype event =
    PoolCreated
  | Acquired
  | Fetched string "pyval list"
  | Executed string "pyval list"
  | Released

text \<open>The global \<open>pool\<close> (set or not) and what has been done to the database so far.\<close>

record world =
  pool_ready :: bool
  trace :: "event list"

definition logged :: "event list \<Rightarrow> world \<Rightarrow> world" where
  "logged evs w = w\<lparr>trace := trace w @ evs\<rparr>"

definition get_pool :: "collab \<Rightarrow> world \<Rightarrow> (exn + unit) \<times> world" where
  "get_pool co w =
     (if \<not> pool_ready w then
        (case create_pool_error co of
           Some e \<Rightarrow> (Inl e, w)
         | None \<Rightarrow> (Inr (), logged [PoolCreated] (w\<lparr>pool_ready := True\<rparr>)))
      else (Inr (), w))"

text \<open>
  \<open>pool = await get_pool()\<close> followed by \<open>async with pool.acquire() as conn: body\<close>:
  the body answers with a result or an exception and the calls it made; the connection
  is released on every way out of the body, and an exception of the release replaces
  the outcome of the body.
\<close>

definition with_connection ::
  "collab \<Rightarrow> world \<Rightarrow> ((exn + 'a) \<times> event list) \<Rightarrow> (exn + 'a) \<times> world" where
  "with_connection co w body =
     (case get_pool co w of
        (Inl e, w1) \<Rightarrow> (Inl e, w1)
      | (Inr _, w1) \<Rightarrow>
          (case acquire_error co of
             Some e \<Rightarrow> (Inl e, w1)
           | None \<Rightarrow>
               (case release_error co of
                  Some e \<Rightarrow> (Inl e, logged ([Acquired] @ snd body) w1)
                | None \<Rightarrow> (fst body, logged ([Acquired] @ snd body @ [Released]) w1))))"

section \<open>The tools\<close>

definition COLUMNS_SQL :: string where
  "COLUMNS_SQL =
     ''\<newline>                SELECT column_name, data_type, is_nullable'' @
     ''\<newline>                FROM information_schema.columns'' @
     ''\<newline>                WHERE table_schema=$1 AND table_name=$2'' @
     ''\<newline>                ORDER BY ordinal_position'' @
     ''\<newline>                ''"

definition PRIMARY_KEY_SQL :: string where
  "PRIMARY_KEY_SQL =
     ''\<newline>                SELECT kcu.column_name'' @
     ''\<newline>                FROM information_schema.table_constraints tc'' @
     ''\<newline>                JOIN information_schema.key_column_usage kcu'' @
     ''\<newline>                  ON tc.constraint_name=kcu.constraint_name'' @
     ''\<newline>                 AND tc.table_schema=kcu.table_schema'' @
     ''\<newline>                WHERE tc.constraint_type=''@ [CHR 0x27] @ ''PRIMARY KEY'' @ [CHR 0x27] @
     ''\<newline>                  AND tc.table_schema=$1 AND tc.table_name=$2'' @
     ''\<newline>                ''"

definition error_result :: "ustr \<Rightarrow> pydict" where
  "error_result msg = [(cp ''error'', PStr msg)]"

text \<open>\<open>[r["column_name"] for r in pks]\<close>\<close>

fun column_names :: "row list \<Rightarrow> exn + pyval list" where
  "column_names [] = Inr []"
| "column_names (r # rs) =
     (case map_of (dict_of_pairs r) (cp ''column_name'') of
        None \<Rightarrow> Inl (KeyError (cp (py_repr ''column_name'')))
      | Some v \<Rightarrow> (case column_names rs of Inl e \<Rightarrow> Inl e | Inr vs \<Rightarrow> Inr (v # vs)))"

text \<open>The body of \<open>describe_table\<close> under the connection: the two catalog queries.\<close>

definition describe_body :: "collab \<Rightarrow> TableIdent \<Rightarrow> (exn + pydict) \<times> event list" where
  "describe_body co table_ident =
     (let args = [PStr (schema table_ident), PStr (table table_ident)] in
      case fetch co COLUMNS_SQL args of
        Inl e \<Rightarrow> (Inl e, [Fetched COLUMNS_SQL args])
      | Inr cols \<Rightarrow>
          (case fetch co PRIMARY_KEY_SQL args of
             Inl e \<Rightarrow> (Inl e, [Fetched COLUMNS_SQL args, Fetched PRIMARY_KEY_SQL args])
           | Inr pks \<Rightarrow>
               (case column_names pks of
                  Inl e \<Rightarrow> Inl e
                | Inr names \<Rightarrow>
                    Inr [(cp ''columns'', PList (map (\<lambda>r. PDict (dict_of_pairs r)) cols)),
                         (cp ''primary_key'', PList names)],
                [Fetched COLUMNS_SQL args, Fetched PRIMARY_KEY_SQL args])))"

text \<open>
  The argument \<open>payload\<close>: a \<open>TableIdent\<close>, a \<open>str\<close>, or an object that is neither (as a
  plain \<open>dict\<close> passed by a caller that goes around the tool layer).
\<close>

datatype payload = PayloadIdent TableIdent | PayloadStr string | PayloadOther pyval

text \<open>
  The first half of \<open>describe_table\<close>: the identifier of the request, or the result
  with which the tool returns at once, or an exception that is not a
  \<open>ValidationError\<close>.  An object that is no \<open>str\<close> is taken for the identifier, and
  reading its \<open>schema\<close> raises when it has none.
\<close>

definition read_payload :: "collab \<Rightarrow> payload \<Rightarrow> exn + (pydict + TableIdent)" where
  "read_payload co payload =
     (case payload of
        PayloadStr s \<Rightarrow>
          (case parse_malformed_json (recursion_room co) (ArgStr s) of
             Inl e \<Rightarrow> Inl e
           | Inr payload_dict \<Rightarrow>
               if \<not> truthy payload_dict
               then Inr (Inl (error_result (cp ''Could not parse JSON payload'')))
               else (case TableIdent_init (validation_text co) payload_dict of
                       Inr table_ident \<Rightarrow> Inr (Inr table_ident)
                     | Inl (ValidationError m) \<Rightarrow>
                         Inr (Inl (error_result (cp ''Invalid payload format: '' @ m)))
                     | Inl e \<Rightarrow> Inl e))
      | PayloadIdent table_ident \<Rightarrow> Inr (Inr table_ident)
      | PayloadOther v \<Rightarrow>
          Inl (AttributeError (cp ([CHR 0x27] @ type_name v @ [CHR 0x27]
                 @ '' object has no attribute '' @ [CHR 0x27] @ ''schema'' @ [CHR 0x27]))))"

definition describe_table :: "collab \<Rightarrow> world \<Rightarrow> payload \<Rightarrow> (exn + pydict) \<times> world" where
  "describe_table co w payload =
     (case read_payload co payload of
        Inl e \<Rightarrow> (Inl e, w)
      | Inr (Inl early) \<Rightarrow> (Inr early, w)
      | Inr (Inr table_ident) \<Rightarrow>
          if schema table_ident \<notin> ALLOWED_SCHEMAS
          then (Inr (error_result (cp ''Schema '' @ [0x27] @ schema table_ident @ [0x27]
                                     @ cp '' not allowed.'')), w)
          else with_connection co w (describe_body co table_ident))"

text \<open>
  The argument \<open>params\<close>: \<open>None\<close>, a \<open>dict\<close>, a \<open>str\<close>, or an object that is none of
  these.
\<close>

datatype params_arg = ParamsNone | ParamsDict pydict | ParamsStr string | ParamsOther pyval

text \<open>\<open>*params.values() if params else []\<close>\<close>

definition sql_args :: "pyval \<Rightarrow> exn + pyval list" where
  "sql_args params =
     (if truthy params then
        (case params of
           PDict d \<Rightarrow> Inr (map snd d)
         | v \<Rightarrow> Inl (AttributeError (cp ([CHR 0x27] @ type_name v @ [CHR 0x27]
                        @ '' object has no attribute '' @ [CHR 0x27] @ ''values'' @ [CHR 0x27]))))
      else Inr [])"

text \<open>\<open>int(result.split()[-1])\<close>: the row count at the end of the backend's status tag.\<close>

definition affected_rows :: "string \<Rightarrow> exn + int" where
  "affected_rows result =
     (case index_last (split_ws result) of
        Inl e \<Rightarrow> Inl e
      | Inr tok \<Rightarrow> py_int tok)"

text \<open>
  The body of the \<open>try\<close> of \<open>query\<close>, before its \<open>except\<close>: the result or the exception,
  and the calls made on the connection.  The arguments of a call are evaluated before
  the call.
\<close>

definition query_body :: "collab \<Rightarrow> string \<Rightarrow> pyval \<Rightarrow> (exn + pydict) \<times> event list" where
  "query_body co sql params =
     (case is_read_only sql of
        Inl e \<Rightarrow> (Inl e, [])
      | Inr True \<Rightarrow>
          (case sql_args params of
             Inl e \<Rightarrow> (Inl e, [])
           | Inr args \<Rightarrow>
               (case fetch co sql args of
                  Inl e \<Rightarrow> Inl e
                | Inr rows \<Rightarrow>
                    Inr [(cp ''rows'', PList (map (\<lambda>r. PDict (dict_of_pairs r)) rows)),
                         (cp ''count'', PInt (int (length rows))),
                         (cp ''sql'', PStr (cp (redact sql)))],
                [Fetched sql args]))
      | Inr False \<Rightarrow>
          (case sql_args params of
             Inl e \<Rightarrow> (Inl e, [])
           | Inr args \<Rightarrow>
               (case execute co sql args of
                  Inl e \<Rightarrow> Inl e
                | Inr result \<Rightarrow>
                    (case affected_rows result of
                       Inl e \<Rightarrow> Inl e
                     | Inr affected \<Rightarrow>
                         Inr [(cp ''status'', PStr (cp ''ok'')),
                              (cp ''affected'', PInt affected),
                              (cp ''sql'', PStr (cp (redact sql)))]),
                [Executed sql args])))"

text \<open>
  \<open>except Exception as e: return {"error": str(e), "sql": redact(sql)}\<close>; an exception
  that is no \<open>Exception\<close> goes on.
\<close>

definition catch_all :: "string \<Rightarrow> (exn + pydict) \<times> event list \<Rightarrow> (exn + pydict) \<times> event list" where
  "catch_all sql r =
     (case fst r of
        Inl e \<Rightarrow>
          if is_exception e
          then (Inr [(cp ''error'', PStr (exn_str e)), (cp ''sql'', PStr (cp (redact sql)))], snd r)
          else r
      | Inr d \<Rightarrow> r)"

text \<open>Lines 150 to 153: the parameters as a value, or the exception of their recovery.\<close>

definition params_value :: "nat \<Rightarrow> params_arg \<Rightarrow> exn + pyval" where
  "params_value depth params =
     (case params of
        ParamsStr s \<Rightarrow> parse_malformed_json depth (ArgStr s)
      | ParamsNone \<Rightarrow> Inr (PDict [])
      | ParamsDict d \<Rightarrow> Inr (PDict d)
      | ParamsOther v \<Rightarrow> Inr v)"

text \<open>Line 155: \<open>role == "read" and not is_read_only(sql)\<close>.\<close>

definition rejects :: "string \<Rightarrow> string \<Rightarrow> exn + bool" where
  "rejects role sql = (if role = ''read'' then map_sum id Not (is_read_only sql) else Inr False)"

text \<open>
  Lines 158 and 159: the statement that \<open>query\<close> goes on with.  The f-string is
  evaluated only when the statement is rewritten.
\<close>

definition bound_statement :: "string \<Rightarrow> limit_arg \<Rightarrow> exn + string" where
  "bound_statement sql limit =
     (case is_read_only sql of
        Inl e \<Rightarrow> Inl e
      | Inr ro \<Rightarrow>
          if ro \<and> \<not> contains ''limit'' (lower sql)
          then (case format_limit limit of
                  Inl e \<Rightarrow> Inl e
                | Inr lim \<Rightarrow> Inr (''SELECT * FROM ('' @ sql @ '') as _sub LIMIT '' @ lim))
          else Inr sql)"

text \<open>Lines 158 to 172: what \<open>query\<close> does with a statement that passed the gate.\<close>

definition run_admitted ::
  "collab \<Rightarrow> world \<Rightarrow> string \<Rightarrow> pyval \<Rightarrow> limit_arg \<Rightarrow> (exn + pydict) \<times> world" where
  "run_admitted co w sql params limit =
     (case bound_statement sql limit of
        Inl e \<Rightarrow> (Inl e, w)
      | Inr sql1 \<Rightarrow> with_connection co w (catch_all sql1 (query_body co sql1 params)))"

definition query ::
  "collab \<Rightarrow> world \<Rightarrow> string \<Rightarrow> params_arg \<Rightarrow> string \<Rightarrow> limit_arg \<Rightarrow> (exn + pydict) \<times> world" where
  "query co w sql params role limit =
     (case params_value (recursion_room co) params of
        Inl e \<Rightarrow> (Inl e, w)
      | Inr params1 \<Rightarrow>
          (case rejects role sql of
             Inl e \<Rightarrow> (Inl e, w)
           | Inr True \<Rightarrow> (Inr (error_result (cp ''Write operation not allowed in read role'')), w)
           | Inr False \<Rightarrow> run_admitted co w sql params1 limit))"

text \<open>
  In the words of the specification: the status tag ends in a whitespace-delimited
  token that is a decimal integer (an optional sign, then decimal digits, single
  underscores between digits allowed).
\<close>

definition ends_in_integer :: "string \<Rightarrow> bool" where
  "ends_in_integer status =
     (case split_ws status of [] \<Rightarrow> False | t # ts \<Rightarrow> int_body (unsigned (last (t # ts))))"

text \<open>
  In the words of the specification, the textual rendering of \<open>limit\<close>; and the limits
  whose rendering does not exceed the digit limit.
\<close>

definition limit_text :: "limit_arg \<Rightarrow> string" where
  "limit_text limit =
     (case limit of
        LimitNone \<Rightarrow> ''None''
      | LimitInt i \<Rightarrow> decimal i
      | LimitBool b \<Rightarrow> (if b then ''True'' else ''False''))"

definition short_limit :: "limit_arg \<Rightarrow> bool" where
  "short_limit limit = (case limit of LimitInt i \<Rightarrow> \<bar>i\<bar> < 10 ^ MAX_STR_DIGITS | _ \<Rightarrow> True)"

text \<open>The statements sent to the database, in order, as a trace records them.\<close>
fun statements :: "event list \<Rightarrow> string list" where
  "statements [] = []"
| "statements (Fetched s args # evs) = s # statements evs"
| "statements (Executed s args # evs) = s # statements evs"
| "statements (_ # evs) = statements evs"

text \<open>
  A database for the concrete evaluations: every query answers one row holding the
  integer 1, every other statement the status tag \<open>CREATE TABLE\<close>; nothing fails, and
  \<open>json.loads\<close> has room for 900 nested containers.
\<close>

definition sample_db :: collab where
  "sample_db =
     \<lparr>create_pool_error = None, acquire_error = None, release_error = None,
      fetch = (\<lambda>sql args. Inr [[(cp ''?column?'', PInt 1)]]),
      execute = (\<lambda>sql args. Inr ''CREATE TABLE''),
      validation_text = (\<lambda>fs. cp ''validation error''),
      recursion_room = 900\<rparr>"

definition fresh :: world where
  "fresh = \<lparr>pool_ready = False, trace = []\<rparr>"

section \<open>Facts about the text primitives\<close>

lemma rstrip_append: "rstrip (a @ b) = (if rstrip b = [] then rstrip a else a @ rstrip b)"
  unfolding rstrip_def by (auto simp: dropWhile_append)

lemma rstrip_Cons: "rstrip (c # cs) = (if rstrip cs = [] \<and> is_space c then [] else c # rstrip cs)"
  using rstrip_append[of "[c]" cs] by (auto simp: rstrip_def)

lemma takeWhile_rstrip: "takeWhile non_space (rstrip r) = takeWhile non_space r"
proof (induction r)
  case Nil
  show ?case by (simp add: rstrip_def)
next
  case (Cons c cs)
  then show ?case by (auto simp: rstrip_Cons non_space_def)
qed

lemma first_token_lstrip: "first_token sql = takeWhile non_space (lstrip sql)"
  by (simp add: first_token_def strip_def takeWhile_rstrip)

lemma rstrip_Nil_iff: "rstrip r = [] \<longleftrightarrow> (\<forall>c\<in>set r. is_space c)"
  by (simp add: rstrip_def)

lemma lstrip_head: "lstrip sql = c # cs \<Longrightarrow> \<not> is_space c"
  unfolding lstrip_def using hd_dropWhile[of is_space sql] by auto

lemma strip_Nil_iff: "strip sql = [] \<longleftrightarrow> lstrip sql = []"
proof (cases "lstrip sql")
  case Nil
  then show ?thesis by (simp add: strip_def rstrip_def)
next
  case (Cons c cs)
  then have "\<not> is_space c" by (rule lstrip_head)
  with Cons show ?thesis by (auto simp: strip_def rstrip_Nil_iff)
qed

lemma in_prefixes_startswith: "h \<in> set ps \<Longrightarrow> startswith_any h ps"
  unfolding startswith_any_def list_ex_iff startswith_def
  by (rule bexI[of _ h]) simp_all

lemmas text_eval =
  strip_def lstrip_def rstrip_def is_space_def non_space_def lower_def lower_char_def
  startswith_any_def startswith_def char_of_eq_iff

section \<open>The statement classifier\<close>

text \<open>
  Claim C1, as the code has it: \<open>is_read_only\<close> never raises, and it answers true exactly
  when the lower-cased first whitespace-delimited token of the trimmed statement
  \<^emph>\<open>starts with\<close> one of \<open>select\<close>, \<open>show\<close>, \<open>explain\<close>, \<open>with\<close>.  An empty or
  whitespace-only statement has the empty token, which starts with none of them.
\<close>

theorem is_read_only_prefix_of_first_token:
  "is_read_only sql = Inr (startswith_any (lower (first_token sql)) READ_ONLY_PREFIXES)"
proof (cases "lstrip sql = []")
  case True
  then show ?thesis
    by (simp add: is_read_only_def strip_Nil_iff first_token_lstrip lower_def
        startswith_any_def startswith_def READ_ONLY_PREFIXES_def)
next
  case False
  then have "dropWhile is_space (lstrip sql) = lstrip sql"
    by (simp add: lstrip_def)
  with False show ?thesis
    using in_prefixes_startswith[of _ READ_ONLY_PREFIXES]
    by (auto simp add: is_read_only_def strip_Nil_iff first_token_lstrip index0_def Let_def)
qed

text \<open>
  The claim as worded (true iff the token \<^emph>\<open>is one of\<close> the four keywords) fails: the
  statement \<open>selectx 1\<close> is classified read-only although its first token is none of
  the four.
\<close>

theorem is_read_only_keyword_counterexample:
  "is_read_only ''selectx 1'' = Inr True \<and>
   lower (first_token ''selectx 1'') \<notin> set READ_ONLY_PREFIXES"
  by (simp add: is_read_only_def index0_def READ_ONLY_PREFIXES_def first_token_def text_eval)

text \<open>The examples of the specification, and blank statements.\<close>

lemma is_read_only_examples:
  "is_read_only ''select 1'' = Inr True"
  "is_read_only ''  SELECT 1'' = Inr True"
  "is_read_only ''with x as (select 1) select * from x'' = Inr True"
  "is_read_only ''EXPLAIN select 1'' = Inr True"
  "is_read_only ''insert into t values (1)'' = Inr False"
  "is_read_only '''' = Inr False"
  "is_read_only ''   '' = Inr False"
  by (simp_all add: is_read_only_def index0_def READ_ONLY_PREFIXES_def text_eval)

section \<open>Facts about the tools\<close>

lemma is_read_only_total: "\<exists>b. is_read_only sql = Inr b"
  by (cases "lstrip sql = []")
     (auto simp add: is_read_only_def strip_Nil_iff index0_def Let_def lstrip_def)

lemma wrapped_read_only: "is_read_only (''SELECT * FROM ('' @ sql @ rest) = Inr True"
  by (simp add: is_read_only_def index0_def READ_ONLY_PREFIXES_def strip_Nil_iff text_eval)

lemma bound_statement_unchanged:
  "\<not> (is_read_only sql = Inr True \<and> \<not> contains ''limit'' (lower sql)) \<Longrightarrow>
   bound_statement sql limit = Inr sql"
  using is_read_only_total[of sql] by (auto simp: bound_statement_def)

lemma bound_statement_wrapped:
  "is_read_only sql = Inr True \<Longrightarrow> \<not> contains ''limit'' (lower sql) \<Longrightarrow>
   bound_statement sql limit =
     map_sum id (\<lambda>lim. ''SELECT * FROM ('' @ sql @ '') as _sub LIMIT '' @ lim) (format_limit limit)"
  by (cases "format_limit limit") (simp_all add: bound_statement_def)

lemma get_pool_ok: "create_pool_error co = None \<Longrightarrow> fst (get_pool co w) = Inr ()"
  by (simp add: get_pool_def)

lemma with_connection_ok:
  "create_pool_error co = None \<Longrightarrow> acquire_error co = None \<Longrightarrow> release_error co = None \<Longrightarrow>
   with_connection co w body =
     (fst body, logged ([Acquired] @ snd body @ [Released]) (snd (get_pool co w)))"
  by (simp add: with_connection_def get_pool_def)

lemma trace_logged: "trace (logged evs w) = trace w @ evs"
  by (simp add: logged_def)

lemma statements_append: "statements (xs @ ys) = statements xs @ statements ys"
  by (induction xs rule: statements.induct) simp_all

lemma statements_get_pool: "statements (trace (snd (get_pool co w))) = statements (trace w)"
  by (simp add: get_pool_def logged_def statements_append split: option.splits)




lemma query_admitted:
  assumes "params_value (recursion_room co) params = Inr pv"
    and "rejects role sql = Inr False" and "bound_statement sql limit = Inr sql1"
  shows "query co w sql params role limit =
         with_connection co w (catch_all sql1 (query_body co sql1 pv))"
  using assms by (simp add: query_def run_admitted_def)

lemma format_limit_short: "short_limit limit \<Longrightarrow> format_limit limit = Inr (limit_text limit)"
  by (cases limit) (simp_all add: short_limit_def format_limit_def limit_text_def str_int_def)


lemma short_limit_int: "\<bar>i\<bar> < 10 ^ k \<Longrightarrow> k \<le> MAX_STR_DIGITS \<Longrightarrow> short_limit (LimitInt i)"
proof -
  assume a: "\<bar>i\<bar> < 10 ^ k" and b: "k \<le> MAX_STR_DIGITS"
  have "(10::int) ^ k \<le> 10 ^ MAX_STR_DIGITS" using b by (intro power_increasing) simp_all
  with a have "\<bar>i\<bar> < 10 ^ MAX_STR_DIGITS" by linarith
  then show ?thesis by (simp add: short_limit_def)
qed


lemma short_limit_examples:
  "short_limit (LimitInt 50)" "short_limit (LimitInt 2000)" "short_limit (LimitInt 0)"
  "short_limit (LimitInt (- 5))"
  by (rule short_limit_int[of _ 4]; simp add: MAX_STR_DIGITS_def)+

lemma text_examples:
  "limit_text LimitNone = ''None''" "limit_text (LimitInt 50) = ''50''"
  "limit_text (LimitInt 2000) = ''2000''" "limit_text (LimitInt 0) = ''0''"
  "limit_text (LimitInt (- 5)) = ''-5''"
  by code_simp+

lemma scan_number_long:
  assumes "ds \<noteq> []" and "\<forall>c\<in>set ds. is_digit c" and "hd ds \<noteq> CHR ''0''"
    and "MAX_STR_DIGITS < length ds"
  shows "scan_number ds = Some (TTooLong (length ds), length ds)"
proof -
  obtain d r where ds: "ds = d # r" using assms(1) by (cases ds) auto
  have d: "is_digit d" "d \<noteq> CHR ''0''" and r: "takeWhile is_digit r = r"
    using assms(2,3) by (auto simp: ds takeWhile_eq_all_conv)
  have nm: "d \<noteq> CHR ''-''" using d(1) by (auto simp: is_digit_def)
  have ip: "scan_int_part ds = Some ds"
    by (simp add: scan_int_part_def ds d r)
  show ?thesis
    using assms(4)
    by (simp add: scan_number_def Let_def ip scan_frac_def scan_exp_def) (simp add: ds nm)
qed

lemma scan_atom_long:
  assumes "ds \<noteq> []" and "\<forall>c\<in>set ds. is_digit c" and "hd ds \<noteq> CHR ''0''"
    and "MAX_STR_DIGITS < length ds"
  shows "scan_atom ds = Some (TTooLong (length ds), length ds)"
proof -
  obtain d r where ds: "ds = d # r" using assms(1) by (cases ds) auto
  have d: "is_digit d" using assms(2) by (simp add: ds)
  have "d \<noteq> CHR ''n''" "d \<noteq> CHR ''t''" "d \<noteq> CHR ''f''"
    using d by (auto simp: is_digit_def)
  then have "take 4 ds \<noteq> ''null''" "take 4 ds \<noteq> ''true''" "take 5 ds \<noteq> ''false''"
    by (auto simp: ds)
  then show ?thesis
    by (simp add: scan_atom_def scan_number_long[OF assms])
qed

lemma tokenize_long:
  assumes "ds \<noteq> []" and "\<forall>c\<in>set ds. is_digit c" and "hd ds \<noteq> CHR ''0''"
    and "MAX_STR_DIGITS < length ds"
  shows "tokenize ds = [TTooLong (length ds)]"
proof -
  obtain d r where ds: "ds = d # r" using assms(1) by (cases ds) auto
  have d: "is_digit d" using assms(2) by (simp add: ds)
  have plain: "\<not> json_ws d" "d \<noteq> CHR 0x7B" "d \<noteq> CHR 0x7D" "d \<noteq> CHR ''[''" "d \<noteq> CHR '']''"
    "d \<noteq> CHR '',''" "d \<noteq> CHR '':''" "d \<noteq> CHR 0x22"
    using d by (auto simp: is_digit_def json_ws_def)
  have "scan_atom (d # r) = Some (TTooLong (length (d # r)), length (d # r))"
    using scan_atom_long[OF assms] by (simp add: ds)
  then show ?thesis
    by (simp add: ds plain)
qed

lemma parse_long_integer:
  assumes "ds \<noteq> []" and "\<forall>c\<in>set ds. is_digit c" and "hd ds \<noteq> CHR ''0''"
    and "MAX_STR_DIGITS < length ds"
  shows "parse_malformed_json depth (ArgStr ds) = Inl (too_many_digits_to_int (length ds))"
  using assms(1) by (simp add: json_loads_def tokenize_long[OF assms])

lemma parse_4301_digits:
  "parse_malformed_json depth (ArgStr (replicate 4301 (CHR ''1''))) = Inl (too_many_digits_to_int 4301)"
  using parse_long_integer[of "replicate 4301 (CHR ''1'')" depth]
  by (simp add: is_digit_def MAX_STR_DIGITS_def)

lemma query_params_raise:
  "params_value (recursion_room co) params = Inl e \<Longrightarrow> query co w sql params role limit = (Inl e, w)"
  by (simp add: query_def)

lemma json_loads_empty: "json_loads depth [] = Inl JSONDecodeError"
  by (simp add: json_loads_def)


lemma parse_raises_as_json_loads:
  "json_loads depth s = Inl (Raised e) \<Longrightarrow> parse_malformed_json depth (ArgStr s) = Inl e"
  by (cases "s = []") (simp_all add: json_loads_empty)

lemma dropWhile_none: "\<forall>c\<in>set xs. \<not> P c \<Longrightarrow> dropWhile P xs = xs"
  by (cases xs) simp_all

lemma strip_no_space:
  assumes "\<forall>c\<in>set t. non_space c"
  shows "strip t = t"
proof -
  have a: "\<forall>c\<in>set t. \<not> is_space c" using assms by (simp add: non_space_def)
  have 1: "dropWhile is_space t = t" using a by (rule dropWhile_none)
  have "\<forall>c\<in>set (rev t). \<not> is_space c" using a by simp
  then have 2: "dropWhile is_space (rev t) = rev t" by (rule dropWhile_none)
  show ?thesis by (simp add: strip_def lstrip_def rstrip_def 1 2)
qed

lemma takeWhile_all: "drop (length (takeWhile P xs)) xs = [] \<Longrightarrow> takeWhile P xs = xs"
  using takeWhile_dropWhile_id[of P xs] by (simp add: dropWhile_eq_drop)

lemma py_int_fails:
  assumes "\<forall>c\<in>set t. non_space c" and "\<not> int_body (unsigned t)"
  shows "\<exists>e. py_int t = Inl e \<and> is_exception e"
proof -
  define run where "run = takeWhile (\<lambda>c. is_digit c \<or> c = CHR ''_'') (unsigned t)"
  have st: "strip t = t" using assms(1) by (rule strip_no_space)
  show ?thesis
  proof (cases "int_body run")
    case False
    then show ?thesis
      by (simp add: py_int_def Let_def st run_def invalid_literal_def)
  next
    case True
    then have "run \<noteq> unsigned t" using assms(2) by auto
    then have "drop (length run) (unsigned t) \<noteq> []"
      unfolding run_def using takeWhile_all by blast
    with True show ?thesis
      by (simp add: py_int_def Let_def st run_def[symmetric] invalid_literal_def
          too_many_digits_to_int_def)
  qed
qed

lemma split_ws_tokens: "t \<in> set (split_ws s) \<Longrightarrow> \<forall>c\<in>set t. non_space c"
proof (induction s rule: split_ws.induct)
  case 1
  then show ?case by simp
next
  case (2 c cs)
  show ?case
  proof (cases "is_space c")
    case True
    with 2 show ?thesis by simp
  next
    case False
    from 2(3) False have "t = c # takeWhile non_space cs \<or>
        t \<in> set (split_ws (drop (length (takeWhile non_space cs)) cs))"
      by simp
    then show ?thesis
    proof
      assume "t = c # takeWhile non_space cs"
      then show ?thesis using False set_takeWhileD[of _ non_space cs]
        by (auto simp: non_space_def)
    next
      assume "t \<in> set (split_ws (drop (length (takeWhile non_space cs)) cs))"
      then show ?thesis using 2(2)[OF False] by simp
    qed
  qed
qed

lemma affected_rows_fails:
  assumes "\<not> ends_in_integer status"
  shows "\<exists>e. affected_rows status = Inl e \<and> is_exception e"
proof (cases "split_ws status")
  case Nil
  then show ?thesis by (simp add: affected_rows_def index_last_def)
next
  case (Cons t ts)
  have "last (split_ws status) \<in> set (split_ws status)"
    by (rule last_in_set) (simp add: Cons)
  then have ns: "\<forall>c\<in>set (last (t # ts)). non_space c"
    unfolding Cons by (rule split_ws_tokens[of _ status, unfolded Cons])
  have "\<not> int_body (unsigned (last (t # ts)))"
    using assms by (simp add: ends_in_integer_def Cons)
  from py_int_fails[OF ns this] show ?thesis
    by (simp add: affected_rows_def index_last_def Cons)
qed

lemma sample_db_ok:
  "create_pool_error sample_db = None" "acquire_error sample_db = None"
  "release_error sample_db = None"
  by (simp_all add: sample_db_def)

lemma no_params: "params_value depth ParamsNone = Inr (PDict [])" "sql_args (PDict []) = Inr []"
  by (simp_all add: sql_args_def params_value_def)

lemma get_pool_fresh: "get_pool sample_db fresh = (Inr (), \<lparr>pool_ready = True, trace = [PoolCreated]\<rparr>)"
  by (simp add: get_pool_def sample_db_def fresh_def logged_def)

section \<open>The policy gate\<close>

text \<open>
  Claim C2, as the code has it.  When the parameters are recovered without an exception:
  under role \<open>write\<close> a statement always passes the gate, under role \<open>read\<close> it passes
  exactly when \<open>is_read_only\<close> holds of it.  A rejected statement gives the result
  \<open>{"error": "Write operation not allowed in read role"}\<close> (the message begins with a
  capital W), and the world is left as it was: no pool is created, no connection
  acquired, nothing sent to the database.
\<close>

theorem query_policy_gate:
  assumes "params_value (recursion_room co) params = Inr pv"
  shows
  "(role = ''write'' \<longrightarrow>
      query co w sql params role limit = run_admitted co w sql pv limit) \<and>
   (role = ''read'' \<and> is_read_only sql = Inr True \<longrightarrow>
      query co w sql params role limit = run_admitted co w sql pv limit) \<and>
   (role = ''read'' \<and> is_read_only sql = Inr False \<longrightarrow>
      query co w sql params role limit =
        (Inr (error_result (cp ''Write operation not allowed in read role'')), w))"
  using assms by (simp add: query_def rejects_def)

theorem query_policy_gate_witness:
  "params_value (recursion_room sample_db) ParamsNone = Inr (PDict []) \<and>
   query sample_db fresh ''drop table t'' ParamsNone ''write'' (LimitInt 2000) =
     run_admitted sample_db fresh ''drop table t'' (PDict []) (LimitInt 2000) \<and>
   is_read_only ''select 1'' = Inr True \<and>
   query sample_db fresh ''select 1'' ParamsNone ''read'' (LimitInt 2000) =
     run_admitted sample_db fresh ''select 1'' (PDict []) (LimitInt 2000) \<and>
   is_read_only ''delete from users'' = Inr False \<and>
   query sample_db fresh ''delete from users'' ParamsNone ''read'' (LimitInt 2000) =
     (Inr (error_result (cp ''Write operation not allowed in read role'')), fresh)"
proof -
  have p: "params_value (recursion_room sample_db) ParamsNone = Inr (PDict [])"
    by (rule no_params)
  have a: "is_read_only ''select 1'' = Inr True" by code_simp
  have b: "is_read_only ''delete from users'' = Inr False" by code_simp
  have 1: "query sample_db fresh ''drop table t'' ParamsNone ''write'' (LimitInt 2000) =
     run_admitted sample_db fresh ''drop table t'' (PDict []) (LimitInt 2000)"
    using query_policy_gate[OF p, where role="''write''" and w=fresh and sql="''drop table t''"
        and limit="LimitInt 2000"]
    by blast
  have 2: "query sample_db fresh ''select 1'' ParamsNone ''read'' (LimitInt 2000) =
     run_admitted sample_db fresh ''select 1'' (PDict []) (LimitInt 2000)"
    using a query_policy_gate[OF p, where role="''read''" and w=fresh and sql="''select 1''"
        and limit="LimitInt 2000"]
    by blast
  have 3: "query sample_db fresh ''delete from users'' ParamsNone ''read'' (LimitInt 2000) =
     (Inr (error_result (cp ''Write operation not allowed in read role'')), fresh)"
    using b query_policy_gate[OF p, where role="''read''" and w=fresh and sql="''delete from users''"
        and limit="LimitInt 2000"]
    by blast
  from p a b 1 2 3 show ?thesis by blast
qed

text \<open>
  The claim as worded fails twice.  On the text of the message: the rejection of
  \<open>delete from users\<close> under role \<open>read\<close> carries \<open>Write operation ...\<close>, which is not the
  string \<open>write operation ...\<close>.  And on textual parameters whose recovery raises: with
  the parameters \<open>111...1\<close> (4301 digits) the same request raises the \<open>ValueError\<close> of
  \<open>json.loads\<close> before the gate is reached, and returns no result at all.
\<close>

theorem query_rejection_counterexample:
  "query sample_db fresh ''delete from users'' ParamsNone ''read'' (LimitInt 2000) =
     (Inr (error_result (cp ''Write operation not allowed in read role'')), fresh) \<and>
   error_result (cp ''Write operation not allowed in read role'') \<noteq>
     error_result (cp ''write operation not allowed in read role'') \<and>
   query sample_db fresh ''delete from users'' (ParamsStr (replicate 4301 (CHR ''1''))) ''read''
       (LimitInt 2000) =
     (Inl (too_many_digits_to_int 4301), fresh)"
proof -
  have b: "is_read_only ''delete from users'' = Inr False" by code_simp
  have 1: "query sample_db fresh ''delete from users'' ParamsNone ''read'' (LimitInt 2000) =
     (Inr (error_result (cp ''Write operation not allowed in read role'')), fresh)"
    by (simp add: query_def no_params rejects_def b)
  have 2: "error_result (cp ''Write operation not allowed in read role'') \<noteq>
     error_result (cp ''write operation not allowed in read role'')"
    by (simp add: error_result_def cp_def)
  have 3: "query sample_db fresh ''delete from users'' (ParamsStr (replicate 4301 (CHR ''1'')))
       ''read'' (LimitInt 2000) = (Inl (too_many_digits_to_int 4301), fresh)"
    by (rule query_params_raise)
       (simp add: params_value_def parse_4301_digits del: parse_malformed_json.simps)
  from 1 2 3 show ?thesis by blast
qed

section \<open>The result bounder\<close>




text \<open>The other example of the specification: a statement with its own limit stays.\<close>

lemma bound_statement_with_limit:
  "bound_statement ''select * from t limit 10'' limit = Inr ''select * from t limit 10''"
proof -
  have "contains ''limit'' (lower ''select * from t limit 10'')" by code_simp
  then show ?thesis by (intro bound_statement_unchanged) simp
qed

section \<open>Facts about the outcome of a statement\<close>


lemma query_body_fetch:
  "is_read_only sql1 = Inr True \<Longrightarrow> sql_args params = Inr args \<Longrightarrow>
   query_body co sql1 params =
     (case fetch co sql1 args of
        Inl e \<Rightarrow> Inl e
      | Inr rows \<Rightarrow>
          Inr [(cp ''rows'', PList (map (\<lambda>r. PDict (dict_of_pairs r)) rows)),
               (cp ''count'', PInt (int (length rows))),
               (cp ''sql'', PStr (cp (redact sql1)))],
      [Fetched sql1 args])"
  by (simp add: query_body_def)

lemma query_body_execute:
  "is_read_only sql1 = Inr False \<Longrightarrow> sql_args params = Inr args \<Longrightarrow>
   execute co sql1 args = Inr status \<Longrightarrow>
   query_body co sql1 params =
     (case affected_rows status of
        Inl e \<Rightarrow> Inl e
      | Inr affected \<Rightarrow>
          Inr [(cp ''status'', PStr (cp ''ok'')),
               (cp ''affected'', PInt affected),
               (cp ''sql'', PStr (cp (redact sql1)))],
      [Executed sql1 args])"
  by (simp add: query_body_def)

lemma query_fetch_result:
  assumes "params_value (recursion_room co) params = Inr pv"
    and "rejects role sql = Inr False" and "bound_statement sql limit = Inr sql1"
    and "is_read_only sql1 = Inr True" and "sql_args pv = Inr args"
    and "create_pool_error co = None" and "acquire_error co = None"
    and "release_error co = None"
    and "fetch co sql1 args = Inr rows"
  shows "fst (query co w sql params role limit) =
         Inr [(cp ''rows'', PList (map (\<lambda>r. PDict (dict_of_pairs r)) rows)),
              (cp ''count'', PInt (int (length rows))),
              (cp ''sql'', PStr (cp (redact sql1)))]"
  by (simp only: query_admitted[OF assms(1,2,3)] with_connection_ok[OF assms(6,7,8)]
      query_body_fetch[OF assms(4,5)] assms(9) catch_all_def fst_conv snd_conv sum.case)

lemma select_1_bound:
  "rejects ''read'' ''select 1'' = Inr False"
  "bound_statement ''select 1'' (LimitInt 2000) = Inr ''SELECT * FROM (select 1) as _sub LIMIT 2000''"
  "is_read_only ''SELECT * FROM (select 1) as _sub LIMIT 2000'' = Inr True"
  "redact ''SELECT * FROM (select 1) as _sub LIMIT 2000'' =
     ''SELECT * FROM (select 1) as _sub LIMIT 2000''"
proof -
  have ro: "is_read_only ''select 1'' = Inr True" by code_simp
  have nl: "\<not> contains ''limit'' (lower ''select 1'')" by code_simp
  have fmt: "format_limit (LimitInt 2000) = Inr ''2000''"
    using format_limit_short[OF short_limit_examples(2)] by (simp add: text_examples)
  show "rejects ''read'' ''select 1'' = Inr False" by (simp add: rejects_def ro)
  show "bound_statement ''select 1'' (LimitInt 2000) =
      Inr ''SELECT * FROM (select 1) as _sub LIMIT 2000''"
    by (simp add: bound_statement_wrapped[OF ro nl] fmt)
  show "is_read_only ''SELECT * FROM (select 1) as _sub LIMIT 2000'' = Inr True" by code_simp
  show "redact ''SELECT * FROM (select 1) as _sub LIMIT 2000'' =
     ''SELECT * FROM (select 1) as _sub LIMIT 2000''" by code_simp
qed

lemma sample_select_1:
  "fetch sample_db ''SELECT * FROM (select 1) as _sub LIMIT 2000'' [] =
     Inr [[(cp ''?column?'', PInt 1)]]"
  "dict_of_pairs [(cp ''?column?'', PInt 1)] = [(cp ''?column?'', PInt 1)]"
  by (simp_all add: sample_db_def dict_of_pairs_def)

section \<open>The result of a read\<close>

text \<open>
  Claim C4, as the code has it: \<open>query("select 1", role="read")\<close>, with no parameters and
  the default limit 2000, sends \<open>SELECT * FROM (select 1) as _sub LIMIT 2000\<close>; when the
  database answers it with \<open>rows\<close>, the result is these rows as mappings, their number
  as \<open>count\<close>, and as \<open>sql\<close> the statement that was sent, the rewritten one.
\<close>

theorem query_select_1:
  assumes "create_pool_error co = None" and "acquire_error co = None"
    and "release_error co = None"
    and "fetch co ''SELECT * FROM (select 1) as _sub LIMIT 2000'' [] = Inr rows"
  shows "fst (query co w ''select 1'' ParamsNone ''read'' (LimitInt 2000)) =
         Inr [(cp ''rows'', PList (map (\<lambda>r. PDict (dict_of_pairs r)) rows)),
              (cp ''count'', PInt (int (length rows))),
              (cp ''sql'', PStr (cp ''SELECT * FROM (select 1) as _sub LIMIT 2000''))]"
  using query_fetch_result[OF no_params(1) select_1_bound(1,2,3) no_params(2) assms]
  by (simp only: select_1_bound(4))

theorem query_select_1_witness:
  "fst (query sample_db fresh ''select 1'' ParamsNone ''read'' (LimitInt 2000)) =
     Inr [(cp ''rows'', PList [PDict [(cp ''?column?'', PInt 1)]]),
          (cp ''count'', PInt 1),
          (cp ''sql'', PStr (cp ''SELECT * FROM (select 1) as _sub LIMIT 2000''))]"
  using query_select_1[OF sample_db_ok sample_select_1(1), of fresh]
  by (simp add: sample_select_1(2))

text \<open>
  The claim as worded fails: with a database that answers one row holding 1, the \<open>sql\<close>
  field of the result is the rewritten statement, not the text \<open>select 1\<close> of the caller.
\<close>

theorem query_select_1_counterexample:
  "fst (query sample_db fresh ''select 1'' ParamsNone ''read'' (LimitInt 2000)) \<noteq>
     Inr [(cp ''rows'', PList [PDict [(cp ''?column?'', PInt 1)]]),
          (cp ''count'', PInt 1),
          (cp ''sql'', PStr (cp ''select 1''))]"
proof -
  have ne: "cp ''SELECT * FROM (select 1) as _sub LIMIT 2000'' \<noteq> cp ''select 1''"
    by (simp add: cp_def)
  have "fst (query sample_db fresh ''select 1'' ParamsNone ''read'' (LimitInt 2000)) =
     Inr [(cp ''rows'', PList [PDict [(cp ''?column?'', PInt 1)]]),
          (cp ''count'', PInt 1),
          (cp ''sql'', PStr (cp ''SELECT * FROM (select 1) as _sub LIMIT 2000''))]"
    using query_fetch_result[OF no_params(1) select_1_bound(1,2,3) no_params(2) sample_db_ok
        sample_select_1(1), of fresh]
    by (simp add: sample_select_1(2) select_1_bound(4))
  with ne show ?thesis by simp
qed

section \<open>The status tag of a mutating statement\<close>

text \<open>
  Claim C9: a statement that is not classified read-only, under role \<open>write\<close>, is
  executed; when the status tag that \<open>execute\<close> returns does not end in a
  whitespace-delimited decimal integer (as \<open>CREATE TABLE\<close> does not), reading the row
  count raises inside the \<open>try\<close>, and \<open>query\<close> returns the result \<open>{error, sql}\<close> in place
  of \<open>{status, affected, sql}\<close>, although the statement has been executed.
\<close>

theorem query_unparsed_status:
  assumes "role = ''write''" and "is_read_only sql = Inr False"
    and "params_value (recursion_room co) params = Inr pv" and "sql_args pv = Inr args"
    and "create_pool_error co = None" and "acquire_error co = None"
    and "release_error co = None"
    and "execute co sql args = Inr status"
    and "\<not> ends_in_integer status"
  shows "\<exists>e. affected_rows status = Inl e \<and>
           query co w sql params role limit =
             (Inr [(cp ''error'', PStr (exn_str e)), (cp ''sql'', PStr (cp (redact sql)))],
              logged [Acquired, Executed sql args, Released] (snd (get_pool co w)))"
proof -
  from affected_rows_fails[OF assms(9)] obtain e
    where e: "affected_rows status = Inl e" and ex: "is_exception e" by blast
  have rej: "rejects role sql = Inr False"
    using assms(1) by (simp add: rejects_def)
  have b: "bound_statement sql limit = Inr sql"
    by (rule bound_statement_unchanged) (simp add: assms(2))
  have "query co w sql params role limit =
             (Inr [(cp ''error'', PStr (exn_str e)), (cp ''sql'', PStr (cp (redact sql)))],
              logged [Acquired, Executed sql args, Released] (snd (get_pool co w)))"
    by (simp add: query_admitted[OF assms(3) rej b] with_connection_ok[OF assms(5,6,7)]
        query_body_execute[OF assms(2) assms(4) assms(8)] e ex catch_all_def)
  with e show ?thesis by blast
qed

lemma create_table_tag: "\<not> ends_in_integer ''CREATE TABLE''"
  by code_simp

theorem query_unparsed_status_witness:
  "\<exists>e. affected_rows ''CREATE TABLE'' = Inl e \<and>
       query sample_db fresh ''create table t (a int)'' ParamsNone ''write'' (LimitInt 2000) =
         (Inr [(cp ''error'', PStr (exn_str e)),
               (cp ''sql'', PStr (cp (redact ''create table t (a int)'')))],
          logged [Acquired, Executed ''create table t (a int)'' [], Released]
            (snd (get_pool sample_db fresh)))"
proof -
  have ro: "is_read_only ''create table t (a int)'' = Inr False" by code_simp
  have ex: "execute sample_db ''create table t (a int)'' [] = Inr ''CREATE TABLE''"
    by (simp add: sample_db_def)
  show ?thesis
    by (rule query_unparsed_status[OF refl ro no_params sample_db_ok ex create_table_tag])
qed

lemma create_table_error:
  "affected_rows ''CREATE TABLE'' =
     Inl (ValueError (cp (''invalid literal for int() with base 10: '' @ [CHR 0x27] @ ''TABLE''
                          @ [CHR 0x27])))"
  by code_simp

section \<open>The limit is not validated\<close>




section \<open>What JSON recovery returns\<close>

text \<open>
  Claim C5 fails on the code.  The value of the first \<open>json.loads\<close> is returned as it is,
  so that the valid JSON text \<open>[1]\<close> gives a list where the annotation
  \<open>Dict[str, Any]\<close> promises a mapping.
\<close>

theorem parse_malformed_json_returns_list:
  "parse_malformed_json 900 (ArgStr ''[1]'') = Inr (PList [PInt 1])"
  by code_simp

text \<open>
  And the first \<open>json.loads\<close> stands under \<open>except json.JSONDecodeError\<close> only: its
  \<open>ValueError\<close> for an integer of more than 4300 digits (lemma \<open>parse_4301_digits\<close>) and
  its \<open>RecursionError\<close> leave the function.  What is right in the claim: an empty
  string and an argument that is not a string give the empty mapping.
\<close>

lemma parse_malformed_json_too_deep:
  "parse_malformed_json 2 (ArgStr ''[[[1]]]'') =
     Inl (RecursionError (cp (''maximum recursion depth exceeded while decoding a JSON array ''
                              @ ''from a unicode string'')))"
  by code_simp

lemma parse_malformed_json_empty:
  "parse_malformed_json depth (ArgStr []) = Inr (PDict [])"
  "parse_malformed_json depth (ArgOther v) = Inr (PDict [])"
  by simp_all



section \<open>The table descriptor\<close>

text \<open>
  Claim C7, as the code has it: a textual payload that JSON recovery reduces to the
  empty mapping gives the result \<open>{"error": "Could not parse JSON payload"}\<close> (the
  message begins with a capital C); nothing is validated, nothing raised and the world
  is left as it was.
\<close>

theorem describe_table_unparsed:
  "parse_malformed_json (recursion_room co) (ArgStr s) = Inr (PDict []) \<Longrightarrow>
   describe_table co w (PayloadStr s) =
     (Inr (error_result (cp ''Could not parse JSON payload'')), w)"
  by (simp add: describe_table_def read_payload_def)

lemma empty_object_recovered: "parse_malformed_json (recursion_room sample_db) (ArgStr ''{}'') = Inr (PDict [])"
  by code_simp

theorem describe_table_unparsed_witness:
  "describe_table sample_db fresh (PayloadStr ''{}'') =
     (Inr (error_result (cp ''Could not parse JSON payload'')), fresh)"
  by (rule describe_table_unparsed[OF empty_object_recovered])

theorem describe_table_unparsed_counterexample:
  "describe_table sample_db fresh (PayloadStr ''{}'') =
     (Inr (error_result (cp ''Could not parse JSON payload'')), fresh) \<and>
   error_result (cp ''Could not parse JSON payload'') \<noteq>
     error_result (cp ''could not parse JSON payload'')"
proof -
  have 1: "describe_table sample_db fresh (PayloadStr ''{}'') =
     (Inr (error_result (cp ''Could not parse JSON payload'')), fresh)"
    using empty_object_recovered
    by (simp add: describe_table_def read_payload_def del: parse_malformed_json.simps)
  have 2: "error_result (cp ''Could not parse JSON payload'') \<noteq>
     error_result (cp ''could not parse JSON payload'')"
    by (simp add: error_result_def cp_def)
  from 1 2 show ?thesis by blast
qed

lemma TableIdent_init_fields:
  assumes "map_of d (cp ''schema'') = Some (PStr sc)" and "map_of d (cp ''table'') = Some (PStr t)"
  shows "TableIdent_init render (PDict d) = Inr \<lparr>schema = sc, table = t\<rparr>"
  using assms by (simp add: TableIdent_init_def str_field_def)

lemma schema_rejected:
  assumes "read_payload co payload = Inr (Inr table_ident)"
    and "schema table_ident \<notin> ALLOWED_SCHEMAS"
  shows "describe_table co w payload =
     (Inr (error_result (cp ''Schema '' @ [0x27] @ schema table_ident @ [0x27]
                         @ cp '' not allowed.'')), w)"
  using assms by (simp add: describe_table_def)

lemma read_payload_fields:
  assumes "parse_malformed_json (recursion_room co) (ArgStr s) = Inr (PDict d)"
    and "map_of d (cp ''schema'') = Some (PStr sc)" and "map_of d (cp ''table'') = Some (PStr t)"
  shows "read_payload co (PayloadStr s) = Inr (Inr \<lparr>schema = sc, table = t\<rparr>)"
proof -
  have "d \<noteq> []" using assms(2) by auto
  then show ?thesis
    using assms(1)
    by (simp add: read_payload_def TableIdent_init_fields[OF assms(2,3)]
        del: parse_malformed_json.simps)
qed

text \<open>
  Claim C6, as the code has it: a request whose identifier has a schema outside the
  allow-list, be the identifier given as such or recovered from a textual payload,
  gives the result \<open>{"error": "Schema '<schema>' not allowed."}\<close> (the message begins
  with a capital S), and the world is left as it was: no catalog query is issued.
\<close>

theorem describe_table_schema_rejected:
  "(schema table_ident \<notin> ALLOWED_SCHEMAS \<longrightarrow>
      describe_table co w (PayloadIdent table_ident) =
        (Inr (error_result (cp ''Schema '' @ [0x27] @ schema table_ident @ [0x27]
                            @ cp '' not allowed.'')), w)) \<and>
   (parse_malformed_json (recursion_room co) (ArgStr s) = Inr (PDict d) \<and>
    map_of d (cp ''schema'') = Some (PStr sc) \<and> map_of d (cp ''table'') = Some (PStr t) \<and>
    sc \<notin> ALLOWED_SCHEMAS \<longrightarrow>
      describe_table co w (PayloadStr s) =
        (Inr (error_result (cp ''Schema '' @ [0x27] @ sc @ [0x27] @ cp '' not allowed.'')), w))"
proof (intro conjI impI)
  assume "schema table_ident \<notin> ALLOWED_SCHEMAS"
  then show "describe_table co w (PayloadIdent table_ident) =
        (Inr (error_result (cp ''Schema '' @ [0x27] @ schema table_ident @ [0x27]
                            @ cp '' not allowed.'')), w)"
    by (intro schema_rejected) (simp_all add: read_payload_def)
next
  assume a: "parse_malformed_json (recursion_room co) (ArgStr s) = Inr (PDict d) \<and>
    map_of d (cp ''schema'') = Some (PStr sc) \<and> map_of d (cp ''table'') = Some (PStr t) \<and>
    sc \<notin> ALLOWED_SCHEMAS"
  then have r: "read_payload co (PayloadStr s) = Inr (Inr \<lparr>schema = sc, table = t\<rparr>)"
    by (intro read_payload_fields) blast+
  show "describe_table co w (PayloadStr s) =
        (Inr (error_result (cp ''Schema '' @ [0x27] @ sc @ [0x27] @ cp '' not allowed.'')), w)"
    using schema_rejected[OF r] a by simp
qed

lemma secret_payload:
  "parse_malformed_json (recursion_room sample_db) (ArgStr ''{\"schema\":\"secret\",\"table\":\"t\"}'') =
     Inr (PDict [(cp ''schema'', PStr (cp ''secret'')), (cp ''table'', PStr (cp ''t''))])"
  "map_of [(cp ''schema'', PStr (cp ''secret'')), (cp ''table'', PStr (cp ''t''))] (cp ''schema'') =
     Some (PStr (cp ''secret''))"
  "map_of [(cp ''schema'', PStr (cp ''secret'')), (cp ''table'', PStr (cp ''t''))] (cp ''table'') =
     Some (PStr (cp ''t''))"
  "cp ''secret'' \<notin> ALLOWED_SCHEMAS"
  "cp ''Schema '' @ [0x27] @ cp ''secret'' @ [0x27] @ cp '' not allowed.'' =
     cp (''Schema '' @ [CHR 0x27] @ ''secret'' @ [CHR 0x27] @ '' not allowed.'')"
  by (code_simp, code_simp, code_simp, simp add: ALLOWED_SCHEMAS_def cp_def, simp add: cp_def)

theorem describe_table_schema_rejected_witness:
  "describe_table sample_db fresh (PayloadIdent \<lparr>schema = cp ''secret'', table = cp ''t''\<rparr>) =
     (Inr (error_result (cp (''Schema '' @ [CHR 0x27] @ ''secret'' @ [CHR 0x27] @ '' not allowed.''))),
      fresh) \<and>
   describe_table sample_db fresh (PayloadStr ''{\"schema\":\"secret\",\"table\":\"t\"}'') =
     (Inr (error_result (cp (''Schema '' @ [CHR 0x27] @ ''secret'' @ [CHR 0x27] @ '' not allowed.''))),
      fresh)"
proof -
  note th = describe_table_schema_rejected[where co = sample_db and w = fresh
      and table_ident = "\<lparr>schema = cp ''secret'', table = cp ''t''\<rparr>"
      and s = "''{\"schema\":\"secret\",\"table\":\"t\"}''"
      and d = "[(cp ''schema'', PStr (cp ''secret'')), (cp ''table'', PStr (cp ''t''))]"
      and sc = "cp ''secret''" and t = "cp ''t''"]
  have 1: "describe_table sample_db fresh (PayloadIdent \<lparr>schema = cp ''secret'', table = cp ''t''\<rparr>) =
     (Inr (error_result (cp ''Schema '' @ [0x27] @ cp ''secret'' @ [0x27] @ cp '' not allowed.'')),
      fresh)"
    using th secret_payload(4) by simp
  have 2: "describe_table sample_db fresh (PayloadStr ''{\"schema\":\"secret\",\"table\":\"t\"}'') =
     (Inr (error_result (cp ''Schema '' @ [0x27] @ cp ''secret'' @ [0x27] @ cp '' not allowed.'')),
      fresh)"
    using th secret_payload(1,2,3,4) by blast
  from 1 2 show ?thesis unfolding secret_payload(5) by blast
qed

text \<open>
  The claim as worded fails on the text of the message: for the schema \<open>secret\<close> it is
  \<open>Schema 'secret' not allowed.\<close>, which is not the string \<open>schema 'secret' not allowed.\<close>
\<close>

theorem describe_table_schema_counterexample:
  "describe_table sample_db fresh (PayloadStr ''{\"schema\":\"secret\",\"table\":\"t\"}'') =
     (Inr (error_result (cp (''Schema '' @ [CHR 0x27] @ ''secret'' @ [CHR 0x27] @ '' not allowed.''))),
      fresh) \<and>
   error_result (cp (''Schema '' @ [CHR 0x27] @ ''secret'' @ [CHR 0x27] @ '' not allowed.'')) \<noteq>
     error_result (cp (''schema '' @ [CHR 0x27] @ ''secret'' @ [CHR 0x27] @ '' not allowed.''))"
proof -
  have r: "read_payload sample_db (PayloadStr ''{\"schema\":\"secret\",\"table\":\"t\"}'') =
      Inr (Inr \<lparr>schema = cp ''secret'', table = cp ''t''\<rparr>)"
    by (rule read_payload_fields[OF secret_payload(1,2,3)])
  have 1: "describe_table sample_db fresh (PayloadStr ''{\"schema\":\"secret\",\"table\":\"t\"}'') =
     (Inr (error_result (cp (''Schema '' @ [CHR 0x27] @ ''secret'' @ [CHR 0x27] @ '' not allowed.''))),
      fresh)"
    using schema_rejected[OF r, of fresh] secret_payload(4) by (simp add: cp_def)
  have 2: "error_result (cp (''Schema '' @ [CHR 0x27] @ ''secret'' @ [CHR 0x27] @ '' not allowed.'')) \<noteq>
     error_result (cp (''schema '' @ [CHR 0x27] @ ''secret'' @ [CHR 0x27] @ '' not allowed.''))"
    by (simp add: error_result_def cp_def)
  from 1 2 show ?thesis by blast
qed

end
